theory Spec2Isabelle
  imports Complex_Main
begin

section \<open>The variable configuration\<close>

text \<open>
  The script \<^verbatim>\<open>app.py\<close> is a single module. Its table \<^verbatim>\<open>VARIABLE_CONFIG\<close> is a
  dictionary literal from a feature name to a dictionary with the keys \<^verbatim>\<open>"min"\<close>,
  \<^verbatim>\<open>"max"\<close> and \<^verbatim>\<open>"description"\<close>. A Python dictionary iterates in insertion order, and the
  script relies on that order, so the table is an association list in the order of the
  literal. The inner dictionary is a record; its fields \<^verbatim>\<open>min\<close> and \<^verbatim>\<open>max\<close> carry a
  suffix, since HOL already has constants of these names.
\<close>

record field_config =
  min_cfg :: int
  max_cfg :: int
  description :: string

definition VARIABLE_CONFIG :: "(string \<times> field_config) list" where
  "VARIABLE_CONFIG =
    [(''Sex'',
        \<lparr>min_cfg = 0, max_cfg = 1, description = ''Patient gender (0=Female, 1=Male)''\<rparr>),
     (''ASA scores'',
        \<lparr>min_cfg = 0, max_cfg = 5, description = ''ASA physical status classification''\<rparr>),
     (''tumor location'',
        \<lparr>min_cfg = 1, max_cfg = 4, description = ''Tumor location code (1-4)''\<rparr>),
     (''Benign or malignant'',
        \<lparr>min_cfg = 0, max_cfg = 1, description = ''Tumor nature (0=Benign, 1=Malignant)''\<rparr>),
     (''Admitted to NICU'',
        \<lparr>min_cfg = 0, max_cfg = 1, description = ''NICU admission status''\<rparr>),
     (''Duration of surgery'',
        \<lparr>min_cfg = 0, max_cfg = 1, description = ''Surgery duration category''\<rparr>),
     (''diabetes'',
        \<lparr>min_cfg = 0, max_cfg = 1, description = ''Diabetes mellitus status''\<rparr>),
     (''CHF'',
        \<lparr>min_cfg = 0, max_cfg = 1, description = ''Congestive heart failure''\<rparr>),
     (''Functional dependencies'',
        \<lparr>min_cfg = 0, max_cfg = 1, description = ''Functional dependencies''\<rparr>),
     (''mFI-5'',
        \<lparr>min_cfg = 0, max_cfg = 5, description = ''Modified Frailty Index''\<rparr>),
     (''Type of tumor'',
        \<lparr>min_cfg = 1, max_cfg = 5, description = ''Tumor type code (1-5)''\<rparr>)]"

text \<open>
  What the specification calls the field specifications: the name of every entry with its
  two bounds, in the order of \<^verbatim>\<open>VARIABLE_CONFIG.items()\<close>.
\<close>

definition field_bounds :: "(string \<times> field_config) list \<Rightarrow> (string \<times> int \<times> int) list" where
  "field_bounds cfg = map (\<lambda>(feature, config). (feature, min_cfg config, max_cfg config)) cfg"

section \<open>The risk label\<close>

text \<open>
  Line 97: \<^verbatim>\<open>risk_level = "High Risk" if proba > 0.5 else "Low Risk"\<close>, and line 98 for
  the colour of the heading. The probability is a float of the classifier; it is
  modelled as a real number, on which the comparison with the float \<^verbatim>\<open>0.5\<close> (exactly one
  half) is the comparison the machine performs for every finite float.
\<close>

definition risk_level :: "real \<Rightarrow> string" where
  "risk_level proba = (if proba > 0.5 then ''High Risk'' else ''Low Risk'')"

definition color :: "real \<Rightarrow> string" where
  "color proba = (if proba > 0.5 then ''#FF4B4B'' else ''#00CC96'')"

section \<open>Exceptions, dictionaries and arrays of the host language\<close>

text \<open>
  The handler of the button catches \<^verbatim>\<open>Exception\<close>. What matters of an exception is
  therefore whether its class derives from \<^verbatim>\<open>Exception\<close>, and the text \<^verbatim>\<open>str(e)\<close> that
  the handler prints. \<^verbatim>\<open>BaseException\<close> stands for the classes outside \<^verbatim>\<open>Exception\<close>
  (\<^verbatim>\<open>KeyboardInterrupt\<close>, \<^verbatim>\<open>SystemExit\<close>).
\<close>

datatype py_exn = Exception string | BaseException string

text \<open>
  \<^verbatim>\<open>inputs[feature] = ...\<close> on a dictionary that keeps insertion order: an existing key
  keeps its place and gets the new value, a new key goes to the end.
\<close>

fun dict_set :: "('k \<times> 'v) list \<Rightarrow> 'k \<Rightarrow> 'v \<Rightarrow> ('k \<times> 'v) list" where
  "dict_set [] k v = [(k, v)]"
| "dict_set ((k', v') # d) k v =
     (if k' = k then (k, v) # d else (k', v') # dict_set d k v)"

type_synonym inputs = "(string \<times> int) list"

text \<open>\<^verbatim>\<open>pd.DataFrame([inputs])\<close>: one row, its columns in the order of the dictionary.\<close>

type_synonym dataframe = "inputs list"

text \<open>
  Indexing an array with a non-negative index, as in \<^verbatim>\<open>predict_proba(input_df)[0][1]\<close> and
  \<^verbatim>\<open>shap_values[0]\<close>: out of range it raises \<^verbatim>\<open>IndexError\<close>, a subclass of
  \<^verbatim>\<open>Exception\<close>, with the text of the array library.
\<close>

function str_nat :: "nat \<Rightarrow> string" where
  "str_nat n =
     (if n < 10 then [char_of (48 + n)]
      else str_nat (n div 10) @ [char_of (48 + n mod 10)])"
  by pat_completeness auto
termination
  by (relation "measure id") auto

declare str_nat.simps [simp del]

definition np_index :: "'a list \<Rightarrow> nat \<Rightarrow> py_exn + 'a" where
  "np_index xs i =
     (if i < length xs then Inr (xs ! i)
      else Inl (Exception (''index '' @ str_nat i @ '' is out of bounds for axis 0 with size ''
                            @ str_nat (length xs))))"

section \<open>The collaborators and the events of a run\<close>

text \<open>
  The arguments of \<^verbatim>\<open>st.number_input\<close> (lines 80 to 87). The argument \<^verbatim>\<open>value\<close> is
  named \<open>value_arg\<close>.
\<close>

record number_input_args =
  label :: string
  min_value :: int
  max_value :: int
  value_arg :: int
  step :: int
  key :: string

text \<open>
  The classifier loaded from \<^verbatim>\<open>best_model.pkl\<close>, the explainer built from it, and the
  other calls into libraries are not part of the script. They are parameters of the
  model: each is a function of its arguments that returns a value or raises. The
  probabilities and the attributions are arrays of floats, modelled as lists of reals.
\<close>

record classifier =
  predict_proba :: "dataframe \<Rightarrow> py_exn + real list list"

record explainer =
  shap_values :: "dataframe \<Rightarrow> py_exn + real list list"
  expected_value :: real

record env =
  abspath :: "string \<Rightarrow> string"
  joblib_load :: "string \<Rightarrow> py_exn + classifier"
  number_input :: "number_input_args \<Rightarrow> int"
  button :: "string \<Rightarrow> bool"
  TreeExplainer :: "classifier \<Rightarrow> py_exn + explainer"
  summary_plot :: "real list list \<Rightarrow> dataframe \<Rightarrow> py_exn + unit"
  force_plot :: "real \<Rightarrow> real list \<Rightarrow> dataframe \<Rightarrow> py_exn + unit"

text \<open>
  What a run of the script does to the outside, in order: the calls into the libraries
  and what it puts on the page. The page set-up, the rules, the headings and the sidebar
  are left out.
\<close>

datatype event =
    Load string
  | Number_input nat number_input_args
  | Button string
  | Predict_proba dataframe
  | Show_risk string string
  | Show_probability real
  | Construct_explainer
  | Shap_values dataframe
  | Summary_plot "real list list" dataframe
  | Force_plot real "real list" dataframe
  | Pyplot
  | St_error string

text \<open>
  A statement of the script takes the events so far and returns a value or the exception
  it raised, with the events extended.
\<close>

type_synonym 'a io = "event list \<Rightarrow> (py_exn + 'a) \<times> event list"

definition call :: "event \<Rightarrow> py_exn + 'a \<Rightarrow> 'a io" where
  "call ev r trace = (r, trace @ [ev])"

definition lift :: "py_exn + 'a \<Rightarrow> 'a io" where
  "lift r trace = (r, trace)"

definition bind_io :: "'a io \<Rightarrow> ('a \<Rightarrow> 'b io) \<Rightarrow> 'b io" where
  "bind_io m f trace =
     (case m trace of
        (Inl e, trace') \<Rightarrow> (Inl e, trace')
      | (Inr x, trace') \<Rightarrow> f x trace')"

section \<open>The form\<close>

text \<open>
  Lines 76 to 87. The loop runs over \<^verbatim>\<open>enumerate(VARIABLE_CONFIG.items())\<close>; the widget of
  entry \<open>i\<close> goes into column \<open>i mod 2\<close>, and what the widget returns is stored under the
  name of the feature.
\<close>

definition widget_args :: "string \<Rightarrow> field_config \<Rightarrow> number_input_args" where
  "widget_args feature config =
     \<lparr>label = feature @ '' ('' @ description config @ '')'',
      min_value = min_cfg config,
      max_value = max_cfg config,
      value_arg = min_cfg config,
      step = 1,
      key = feature\<rparr>"

fun form_loop ::
  "env \<Rightarrow> (nat \<times> string \<times> field_config) list \<Rightarrow> inputs \<Rightarrow> event list \<Rightarrow> inputs \<times> event list"
where
  "form_loop env [] inputs trace = (inputs, trace)"
| "form_loop env ((i, feature, config) # rest) inputs trace =
     form_loop env rest
       (dict_set inputs feature (number_input env (widget_args feature config)))
       (trace @ [Number_input (i mod 2) (widget_args feature config)])"

section \<open>The handler of the button and the script\<close>

text \<open>
  Lines 93 to 124, the body of the \<^verbatim>\<open>try\<close>. Every call that can raise ends the body
  with its exception. The arguments of \<^verbatim>\<open>shap.force_plot\<close> are evaluated before the
  call, so \<^verbatim>\<open>shap_values[0]\<close> can raise before the plot is drawn.
\<close>

definition predict_body :: "env \<Rightarrow> classifier \<Rightarrow> inputs \<Rightarrow> unit io" where
  "predict_body env model inputs =
    (let input_df = [inputs] in
     bind_io (call (Predict_proba input_df) (predict_proba model input_df)) (\<lambda>probs.
     bind_io (lift (np_index probs 0)) (\<lambda>row.
     bind_io (lift (np_index row 1)) (\<lambda>proba.
     bind_io (call (Show_risk (color proba) (risk_level proba)) (Inr ())) (\<lambda>_.
     bind_io (call (Show_probability proba) (Inr ())) (\<lambda>_.
     bind_io (call Construct_explainer (TreeExplainer env model)) (\<lambda>explainer.
     bind_io (call (Shap_values input_df) (shap_values explainer input_df)) (\<lambda>shap_vals.
     bind_io (call (Summary_plot shap_vals input_df) (summary_plot env shap_vals input_df))
       (\<lambda>fig_global.
     bind_io (call Pyplot (Inr ())) (\<lambda>_.
     bind_io (lift (np_index shap_vals 0)) (\<lambda>shap_row.
     bind_io (call (Force_plot (expected_value explainer) shap_row input_df)
                (force_plot env (expected_value explainer) shap_row input_df))
       (\<lambda>fig_local.
     call Pyplot (Inr ())))))))))))))"

text \<open>
  Lines 91, 126 and 127: \<^verbatim>\<open>except Exception as e: st.error(f"Error: {str(e)}")\<close>. An
  exception of a class outside \<^verbatim>\<open>Exception\<close> is not caught.
\<close>

definition predict_handler :: "env \<Rightarrow> classifier \<Rightarrow> inputs \<Rightarrow> unit io" where
  "predict_handler env model inputs trace =
     (case predict_body env model inputs trace of
        (Inl (Exception msg), trace') \<Rightarrow> (Inr (), trace' @ [St_error (''Error: '' @ msg)])
      | (Inl (BaseException msg), trace') \<Rightarrow> (Inl (BaseException msg), trace')
      | (Inr u, trace') \<Rightarrow> (Inr u, trace'))"

text \<open>
  The module from top to bottom: the classifier is loaded (lines 8 and 9, outside any
  \<^verbatim>\<open>try\<close>, so a failure ends the run), the form is built, and the handler runs when the
  button reports a click.
\<close>

definition script :: "env \<Rightarrow> unit io" where
  "script env trace =
     (let model_path = abspath env ''best_model.pkl'' in
      case joblib_load env model_path of
        Inl e \<Rightarrow> (Inl e, trace @ [Load model_path])
      | Inr model \<Rightarrow>
          (case form_loop env (enumerate 0 VARIABLE_CONFIG) [] (trace @ [Load model_path]) of
             (inputs, trace') \<Rightarrow>
               if button env ''Predict Risk''
               then predict_handler env model inputs (trace' @ [Button ''Predict Risk''])
               else (Inr (), trace' @ [Button ''Predict Risk''])))"

section \<open>Reading a run\<close>

text \<open>
  The record that the form has assembled when the script reaches the button (the
  dictionary \<^verbatim>\<open>inputs\<close> after the loop), and line 96 as a function of the classifier
  and the frame: \<^verbatim>\<open>proba = model.predict_proba(input_df)[0][1]\<close>.
\<close>

definition collect_inputs :: "env \<Rightarrow> inputs" where
  "collect_inputs env = fst (form_loop env (enumerate 0 VARIABLE_CONFIG) [] [])"

definition proba_of :: "classifier \<Rightarrow> dataframe \<Rightarrow> py_exn + real" where
  "proba_of model input_df =
     (case predict_proba model input_df of
        Inl e \<Rightarrow> Inl e
      | Inr probs \<Rightarrow>
          (case np_index probs 0 of
             Inl e \<Rightarrow> Inl e
           | Inr row \<Rightarrow> np_index row 1))"

text \<open>Readers of the events, for stating what a run did.\<close>

fun classifier_calls :: "event list \<Rightarrow> dataframe list" where
  "classifier_calls [] = []"
| "classifier_calls (Predict_proba df # evs) = df # classifier_calls evs"
| "classifier_calls (ev # evs) = classifier_calls evs"

fun risk_shown :: "event list \<Rightarrow> string list" where
  "risk_shown [] = []"
| "risk_shown (Show_risk c l # evs) = l # risk_shown evs"
| "risk_shown (ev # evs) = risk_shown evs"

fun errors_shown :: "event list \<Rightarrow> string list" where
  "errors_shown [] = []"
| "errors_shown (St_error msg # evs) = msg # errors_shown evs"
| "errors_shown (ev # evs) = errors_shown evs"


text \<open>
  A statement only ever appends to the events: its result does not depend on what
  happened before it, and what it appends does not either.
\<close>

definition appends_only :: "'a io \<Rightarrow> bool" where
  "appends_only m = (\<forall>trace. m trace = (fst (m []), trace @ snd (m [])))"

text \<open>
  The invariant of an input record in the specification: every field of the table is
  present, with a value within the bounds of the field.
\<close>

definition valid_record :: "(string \<times> field_config) list \<Rightarrow> inputs \<Rightarrow> bool" where
  "valid_record cfg inputs =
     list_all (\<lambda>(feature, config).
        case map_of inputs feature of
          None \<Rightarrow> False
        | Some v \<Rightarrow> min_cfg config \<le> v \<and> v \<le> max_cfg config) cfg"


definition first_render :: "env \<Rightarrow> env" where
  "first_render env = env\<lparr>number_input := value_arg\<rparr>"

section \<open>Sample collaborators and records\<close>

text \<open>
  Concrete collaborators for the examples: a classifier that gives the probability 0.73
  to every row, one that raises, an explainer with zero attributions, and widgets that
  return their initial value. The sample record is the scenario of the specification.
  A bounded widget is one that keeps its bounds when the user types into it: it hands an
  entry to the script when the entry lies within \<^verbatim>\<open>min_value\<close> and \<^verbatim>\<open>max_value\<close>, and
  its initial value otherwise.
\<close>

definition sample_model :: classifier where
  "sample_model = \<lparr>predict_proba = (\<lambda>df. Inr [[0.27, 0.73]])\<rparr>"

definition failing_model :: classifier where
  "failing_model = \<lparr>predict_proba = (\<lambda>df. Inl (Exception ''feature names mismatch''))\<rparr>"

definition sample_explainer :: explainer where
  "sample_explainer =
     \<lparr>shap_values = (\<lambda>df. Inr (map (map (\<lambda>(feature, v). 0)) df)), expected_value = 0.2\<rparr>"

definition sample_env :: env where
  "sample_env =
     \<lparr>abspath = (\<lambda>p. ''/app/'' @ p),
      joblib_load = (\<lambda>p. Inr sample_model),
      number_input = value_arg,
      button = (\<lambda>l. True),
      TreeExplainer = (\<lambda>m. Inr sample_explainer),
      summary_plot = (\<lambda>sv df. Inr ()),
      force_plot = (\<lambda>ev sv df. Inr ())\<rparr>"




definition no_explainer_env :: env where
  "no_explainer_env =
     sample_env\<lparr>TreeExplainer := (\<lambda>m. Inl (Exception ''Model type not yet supported''))\<rparr>"

definition sample_record :: inputs where
  "sample_record =
     [(''Sex'', 1), (''ASA scores'', 2), (''tumor location'', 1), (''Benign or malignant'', 0),
      (''Admitted to NICU'', 0), (''Duration of surgery'', 0), (''diabetes'', 0), (''CHF'', 0),
      (''Functional dependencies'', 0), (''mFI-5'', 1), (''Type of tumor'', 2)]"

section \<open>The form assembles the table's fields in the table's order\<close>

lemma dict_set_fresh: "k \<notin> fst ` set d \<Longrightarrow> dict_set d k v = d @ [(k, v)]"
  by (induction d k v rule: dict_set.induct) auto

lemma form_loop_distinct:
  "distinct (map fst kvs) \<Longrightarrow> fst ` set acc \<inter> fst ` set kvs = {} \<Longrightarrow>
   form_loop env (enumerate n kvs) acc trace =
     (acc @ map (\<lambda>(feature, config). (feature, number_input env (widget_args feature config))) kvs,
      trace @ map (\<lambda>(i, feature, config). Number_input (i mod 2) (widget_args feature config))
                (enumerate n kvs))"
proof (induction kvs arbitrary: n acc trace)
  case Nil
  then show ?case by simp
next
  case (Cons kv kvs)
  obtain feature config where kv: "kv = (feature, config)"
    by (cases kv)
  let ?v = "number_input env (widget_args feature config)"
  from Cons.prems have fresh: "feature \<notin> fst ` set acc"
    by (auto simp: kv)
  have disj: "fst ` set (acc @ [(feature, ?v)]) \<inter> fst ` set kvs = {}"
    using Cons.prems by (auto simp: kv)
  have dist: "distinct (map fst kvs)"
    using Cons.prems by simp
  show ?case
    by (simp add: kv dict_set_fresh [OF fresh] Cons.IH [OF dist disj])
qed

lemma form_loop_registry:
  "form_loop env (enumerate 0 VARIABLE_CONFIG) [] trace =
     (map (\<lambda>(feature, config). (feature, number_input env (widget_args feature config)))
        VARIABLE_CONFIG,
      trace @ map (\<lambda>(i, feature, config). Number_input (i mod 2) (widget_args feature config))
                (enumerate 0 VARIABLE_CONFIG))"
proof -
  have "distinct (map fst VARIABLE_CONFIG)"
    by (simp add: VARIABLE_CONFIG_def)
  from form_loop_distinct [OF this, of "[]" env 0 trace] show ?thesis
    by simp
qed

lemma collect_inputs_eq:
  "collect_inputs env =
     map (\<lambda>(feature, config). (feature, number_input env (widget_args feature config)))
       VARIABLE_CONFIG"
  by (simp add: collect_inputs_def form_loop_registry)

lemma collect_inputs_names: "map fst (collect_inputs env) = map fst VARIABLE_CONFIG"
  by (simp add: collect_inputs_eq case_prod_unfold)


section \<open>Statements append to the events\<close>

lemma appends_only_call: "appends_only (call ev r)"
  by (simp add: appends_only_def call_def)

lemma appends_only_lift: "appends_only (lift r)"
  by (simp add: appends_only_def lift_def)

lemma appends_only_bind:
  assumes "appends_only m" and "\<And>x. appends_only (f x)"
  shows "appends_only (bind_io m f)"
proof -
  have m: "m trace = (fst (m []), trace @ snd (m []))" for trace
    using assms(1) unfolding appends_only_def by blast
  have f: "f x trace = (fst (f x []), trace @ snd (f x []))" for x trace
    using assms(2) unfolding appends_only_def by blast
  have "bind_io m f trace = (fst (bind_io m f []), trace @ snd (bind_io m f []))" for trace
  proof (cases "fst (m [])")
    case (Inl e)
    then show ?thesis
      using m [of trace] by (cases "m []") (simp add: bind_io_def)
  next
    case (Inr x)
    then show ?thesis
      using m [of trace] f [of x "trace @ snd (m [])"] f [of x "snd (m [])"]
      by (cases "m []") (simp add: bind_io_def)
  qed
  then show ?thesis
    unfolding appends_only_def by blast
qed

lemma appends_only_predict_body: "appends_only (predict_body env model r)"
  unfolding predict_body_def Let_def
  by (intro appends_only_bind appends_only_call appends_only_lift)

lemma body_frame:
  "predict_body env model r trace =
     (fst (predict_body env model r []), trace @ snd (predict_body env model r []))"
  using appends_only_predict_body [of env model r] unfolding appends_only_def by blast

lemma handler_frame:
  "predict_handler env model r trace =
     (fst (predict_handler env model r []), trace @ snd (predict_handler env model r []))"
  using body_frame [of env model r trace]
  by (cases "predict_body env model r []")
     (auto simp: predict_handler_def split: sum.splits py_exn.splits)

section \<open>What the handler and the script do in every environment\<close>

lemmas handler_defs =
  predict_handler_def predict_body_def bind_io_def call_def lift_def Let_def

lemma classifier_calls_append:
  "classifier_calls (xs @ ys) = classifier_calls xs @ classifier_calls ys"
  by (induction xs rule: classifier_calls.induct) auto

lemma classifier_calls_form:
  "classifier_calls (map (\<lambda>(i, feature, config). Number_input (f i) (g feature config)) xs) = []"
  by (induction xs) auto




lemma handler_classifier_calls:
  "classifier_calls (snd (predict_handler env model r [])) = [[r]]"
  by (simp add: handler_defs split: sum.splits prod.splits py_exn.splits)

lemma handler_risk_shown:
  "risk_shown (snd (predict_handler env model r [])) =
     (case proba_of model [r] of Inl e \<Rightarrow> [] | Inr p \<Rightarrow> [risk_level p])"
  by (simp add: handler_defs proba_of_def split: sum.splits prod.splits py_exn.splits)


lemma handler_explainer_count:
  "count_list (snd (predict_handler env model r [])) Construct_explainer =
     (case proba_of model [r] of Inl e \<Rightarrow> 0 | Inr p \<Rightarrow> 1)"
  by (simp add: handler_defs proba_of_def split: sum.splits prod.splits py_exn.splits)

lemma handler_errors_shown:
  "errors_shown (snd (predict_handler env model r [])) =
     (case fst (predict_body env model r []) of
        Inl (Exception m) \<Rightarrow> [''Error: '' @ m]
      | Inl (BaseException m) \<Rightarrow> []
      | Inr u \<Rightarrow> [])"
  by (simp add: handler_defs split: sum.splits prod.splits py_exn.splits)

lemma handler_never_raises_exception:
  "fst (predict_handler env model r trace) \<noteq> Inl (Exception msg)"
  by (simp add: predict_handler_def split: sum.splits prod.splits py_exn.splits)

lemma handler_converts:
  "fst (predict_body env model r trace) = Inl (Exception msg) \<Longrightarrow>
   predict_handler env model r trace =
     (Inr (), snd (predict_body env model r trace) @ [St_error (''Error: '' @ msg)])"
  by (cases "predict_body env model r trace") (simp add: predict_handler_def)

lemma handler_classifier_raises:
  "predict_proba model [r] = Inl (Exception msg) \<Longrightarrow>
   predict_handler env model r trace =
     (Inr (), trace @ [Predict_proba [r], St_error (''Error: '' @ msg)])"
  by (simp add: handler_defs)

lemma handler_explainer_raises:
  "proba_of model [r] = Inr p \<Longrightarrow> TreeExplainer env model = Inl (Exception msg) \<Longrightarrow>
   predict_handler env model r trace =
     (Inr (), trace @ [Predict_proba [r], Show_risk (color p) (risk_level p), Show_probability p,
                       Construct_explainer, St_error (''Error: '' @ msg)])"
  by (auto simp add: handler_defs proba_of_def split: sum.splits)

lemma script_trace:
  "snd (script env []) =
     (case joblib_load env (abspath env ''best_model.pkl'') of
        Inl e \<Rightarrow> [Load (abspath env ''best_model.pkl'')]
      | Inr model \<Rightarrow>
          Load (abspath env ''best_model.pkl'')
          # map (\<lambda>(i, feature, config). Number_input (i mod 2) (widget_args feature config))
              (enumerate 0 VARIABLE_CONFIG)
          @ Button ''Predict Risk''
          # (if button env ''Predict Risk''
             then snd (predict_handler env model (collect_inputs env) [])
             else []))"
  by (simp add: script_def Let_def form_loop_registry collect_inputs_eq
        handler_frame [of _ _ _ "_ # _"] split: sum.splits)

lemma script_classifier_calls:
  "classifier_calls (snd (script env [])) =
     (case joblib_load env (abspath env ''best_model.pkl'') of
        Inl e \<Rightarrow> []
      | Inr model \<Rightarrow> if button env ''Predict Risk'' then [[collect_inputs env]] else [])"
  by (simp add: script_trace classifier_calls_append classifier_calls_form
        handler_classifier_calls split: sum.splits)





lemma handler_success:
  assumes "proba_of model [r] = Inr p"
    and "TreeExplainer env model = Inr ex"
    and "shap_values ex [r] = Inr sv"
    and "summary_plot env sv [r] = Inr u"
    and "np_index sv 0 = Inr sv0"
    and "force_plot env (expected_value ex) sv0 [r] = Inr u'"
  shows "predict_handler env model r trace =
     (Inr (), trace @ [Predict_proba [r], Show_risk (color p) (risk_level p),
                       Show_probability p, Construct_explainer, Shap_values [r],
                       Summary_plot sv [r], Pyplot,
                       Force_plot (expected_value ex) sv0 [r], Pyplot])"
  using assms
  by (auto simp add: handler_defs proba_of_def split: sum.splits)


section \<open>The claims of the specification\<close>

text \<open>
  C1. The label is "High Risk" if and only if the probability of the positive class is
  strictly greater than 0.5, for every probability; a probability of exactly 0.5 gives
  "Low Risk". The label that the handler shows for a record is this label of the
  probability that line 96 computes for the record.
\<close>

theorem risk_level_threshold:
  "(risk_level proba = ''High Risk'' \<longleftrightarrow> proba > 0.5)
   \<and> (risk_level proba = ''Low Risk'' \<longleftrightarrow> proba \<le> 0.5)
   \<and> risk_level 0.5 = ''Low Risk''
   \<and> risk_shown (snd (predict_handler env model r [])) =
       (case proba_of model [r] of Inl e \<Rightarrow> [] | Inr p \<Rightarrow> [risk_level p])"
  by (simp add: risk_level_def not_less handler_risk_shown)

text \<open>
  C2. The table has exactly eleven entries, with these names and inclusive integer bounds,
  in this order. The table is a constant of the module, so every reading of it gives the
  same sequence.
\<close>

theorem field_specs_table:
  "field_bounds VARIABLE_CONFIG =
     [(''Sex'', 0, 1), (''ASA scores'', 0, 5), (''tumor location'', 1, 4),
      (''Benign or malignant'', 0, 1), (''Admitted to NICU'', 0, 1),
      (''Duration of surgery'', 0, 1), (''diabetes'', 0, 1), (''CHF'', 0, 1),
      (''Functional dependencies'', 0, 1), (''mFI-5'', 0, 5), (''Type of tumor'', 1, 5)]
   \<and> length VARIABLE_CONFIG = 11"
  by (simp add: field_bounds_def VARIABLE_CONFIG_def)






text \<open>
  C5. In every run in which the classifier is called, it is called once, with the single
  row that the form assembled; the columns of that row are the names of the table in the
  order of the table, and under each name stands what the widget of that field returned.
\<close>

theorem feature_vector_in_table_order:
  "classifier_calls (snd (script env [])) =
     (case joblib_load env (abspath env ''best_model.pkl'') of
        Inl e \<Rightarrow> []
      | Inr model \<Rightarrow> if button env ''Predict Risk'' then [[collect_inputs env]] else [])
   \<and> map fst (collect_inputs env) = map fst VARIABLE_CONFIG
   \<and> map snd (collect_inputs env) =
       map (\<lambda>(feature, config). number_input env (widget_args feature config)) VARIABLE_CONFIG"
  by (simp add: script_classifier_calls collect_inputs_names)
     (simp add: collect_inputs_eq case_prod_unfold)

text \<open>
  C6. When the classifier yields a probability and the explainer and the plots do not
  raise, a call of the handler shows, whatever happened before it: the label and the
  colour of that probability, the probability, the summary plot of the attributions, and
  the force plot of the baseline with the attributions of the row. A second call right
  after the first, with the same record and the same collaborators, shows exactly the
  same again. In every case, also when a collaborator raises, the outcome of a call and
  what it shows do not depend on what happened before it.
\<close>

theorem predict_handler_repeatable:
  "(proba_of model [r] = Inr p \<and> TreeExplainer env model = Inr ex
      \<and> shap_values ex [r] = Inr sv \<and> summary_plot env sv [r] = Inr ()
      \<and> np_index sv 0 = Inr sv0 \<and> force_plot env (expected_value ex) sv0 [r] = Inr () \<longrightarrow>
      predict_handler env model r trace =
        (Inr (), trace @ [Predict_proba [r], Show_risk (color p) (risk_level p),
                          Show_probability p, Construct_explainer, Shap_values [r],
                          Summary_plot sv [r], Pyplot,
                          Force_plot (expected_value ex) sv0 [r], Pyplot])
      \<and> predict_handler env model r (snd (predict_handler env model r trace)) =
        (Inr (), snd (predict_handler env model r trace) @
                 [Predict_proba [r], Show_risk (color p) (risk_level p),
                  Show_probability p, Construct_explainer, Shap_values [r],
                  Summary_plot sv [r], Pyplot,
                  Force_plot (expected_value ex) sv0 [r], Pyplot]))
   \<and> predict_handler env model r trace =
       (fst (predict_handler env model r []), trace @ snd (predict_handler env model r []))
   \<and> fst (predict_handler env model r (snd (predict_handler env model r trace))) =
       fst (predict_handler env model r trace)
   \<and> snd (predict_handler env model r (snd (predict_handler env model r trace))) =
       snd (predict_handler env model r trace) @ snd (predict_handler env model r [])"
proof -
  let ?once = "predict_handler env model r trace"
  have first: "?once = (fst (predict_handler env model r []),
                        trace @ snd (predict_handler env model r []))"
    by (rule handler_frame)
  have second: "predict_handler env model r (snd ?once) =
                  (fst (predict_handler env model r []),
                   snd ?once @ snd (predict_handler env model r []))"
    by (rule handler_frame)
  from first have same: "fst ?once = fst (predict_handler env model r [])"
    by (metis fst_conv)
  have general:
    "fst (predict_handler env model r (snd ?once)) = fst ?once
     \<and> snd (predict_handler env model r (snd ?once)) =
         snd ?once @ snd (predict_handler env model r [])"
    using second same by (metis fst_conv snd_conv)
  have success:
    "predict_handler env model r t =
       (Inr (), t @ [Predict_proba [r], Show_risk (color p) (risk_level p),
                     Show_probability p, Construct_explainer, Shap_values [r],
                     Summary_plot sv [r], Pyplot,
                     Force_plot (expected_value ex) sv0 [r], Pyplot])"
    if "proba_of model [r] = Inr p" "TreeExplainer env model = Inr ex"
      "shap_values ex [r] = Inr sv" "summary_plot env sv [r] = Inr ()"
      "np_index sv 0 = Inr sv0" "force_plot env (expected_value ex) sv0 [r] = Inr ()"
    for t
    using that by (rule handler_success)
  show ?thesis
    using first general success [of trace] success [of "snd ?once"]
    by blast
qed

theorem predict_handler_repeatable_witness:
  "proba_of sample_model [sample_record] = Inr 0.73
   \<and> TreeExplainer sample_env sample_model = Inr sample_explainer
   \<and> shap_values sample_explainer [sample_record] = Inr [[0, 0, 0, 0, 0, 0, 0, 0, 0, 0, 0]]
   \<and> summary_plot sample_env [[0, 0, 0, 0, 0, 0, 0, 0, 0, 0, 0]] [sample_record] = Inr ()
   \<and> np_index [[0, 0, 0, 0, 0, 0, 0, 0, 0, 0, 0 :: real]] 0 = Inr [0, 0, 0, 0, 0, 0, 0, 0, 0, 0, 0]
   \<and> force_plot sample_env 0.2 [0, 0, 0, 0, 0, 0, 0, 0, 0, 0, 0] [sample_record] = Inr ()
   \<and> predict_handler sample_env sample_model sample_record [] =
       (Inr (), [Predict_proba [sample_record], Show_risk ''#FF4B4B'' ''High Risk'',
                 Show_probability 0.73, Construct_explainer, Shap_values [sample_record],
                 Summary_plot [[0, 0, 0, 0, 0, 0, 0, 0, 0, 0, 0]] [sample_record], Pyplot,
                 Force_plot 0.2 [0, 0, 0, 0, 0, 0, 0, 0, 0, 0, 0] [sample_record], Pyplot])
   \<and> snd (predict_handler sample_env sample_model sample_record
            (snd (predict_handler sample_env sample_model sample_record []))) =
       [Predict_proba [sample_record], Show_risk ''#FF4B4B'' ''High Risk'',
        Show_probability 0.73, Construct_explainer, Shap_values [sample_record],
        Summary_plot [[0, 0, 0, 0, 0, 0, 0, 0, 0, 0, 0]] [sample_record], Pyplot,
        Force_plot 0.2 [0, 0, 0, 0, 0, 0, 0, 0, 0, 0, 0] [sample_record], Pyplot,
        Predict_proba [sample_record], Show_risk ''#FF4B4B'' ''High Risk'',
        Show_probability 0.73, Construct_explainer, Shap_values [sample_record],
        Summary_plot [[0, 0, 0, 0, 0, 0, 0, 0, 0, 0, 0]] [sample_record], Pyplot,
        Force_plot 0.2 [0, 0, 0, 0, 0, 0, 0, 0, 0, 0, 0] [sample_record], Pyplot]"
proof -
  let ?attrs = "[[0, 0, 0, 0, 0, 0, 0, 0, 0, 0, 0 :: real]]"
  let ?attr_row = "[0, 0, 0, 0, 0, 0, 0, 0, 0, 0, 0 :: real]"
  have proba: "proba_of sample_model [sample_record] = Inr 0.73"
    by (simp add: proba_of_def sample_model_def np_index_def)
  have ex: "TreeExplainer sample_env sample_model = Inr sample_explainer"
    by (simp add: sample_env_def)
  have sv: "shap_values sample_explainer [sample_record] = Inr ?attrs"
    by (simp add: sample_explainer_def sample_record_def)
  have plot: "summary_plot sample_env ?attrs [sample_record] = Inr ()"
    by (simp add: sample_env_def)
  have sv0: "np_index ?attrs 0 = Inr ?attr_row"
    by (simp add: np_index_def)
  have baseline: "expected_value sample_explainer = 0.2"
    by (simp add: sample_explainer_def)
  have force: "force_plot sample_env (expected_value sample_explainer) ?attr_row [sample_record] = Inr ()"
    by (simp add: sample_env_def)
  let ?once = "predict_handler sample_env sample_model sample_record []"
  let ?raw = "[Predict_proba [sample_record], Show_risk (color 0.73) (risk_level 0.73),
               Show_probability 0.73, Construct_explainer, Shap_values [sample_record],
               Summary_plot ?attrs [sample_record], Pyplot,
               Force_plot (expected_value sample_explainer) ?attr_row [sample_record], Pyplot]"
  let ?shown = "[Predict_proba [sample_record], Show_risk ''#FF4B4B'' ''High Risk'',
                 Show_probability 0.73, Construct_explainer, Shap_values [sample_record],
                 Summary_plot ?attrs [sample_record], Pyplot,
                 Force_plot 0.2 ?attr_row [sample_record], Pyplot]"
  from proba ex sv plot sv0 force
    predict_handler_repeatable
      [of sample_model sample_record "0.73" sample_env sample_explainer ?attrs ?attr_row "[]"]
  have both:
    "?once = (Inr (), [] @ ?raw)
     \<and> predict_handler sample_env sample_model sample_record (snd ?once) =
         (Inr (), snd ?once @ ?raw)"
    by blast
  have raw: "?raw = ?shown"
    by (simp add: baseline color_def risk_level_def)
  from both have first: "?once = (Inr (), ?shown)"
    by (simp only: append_Nil raw)
  from both have "snd (predict_handler sample_env sample_model sample_record (snd ?once)) =
                    snd ?once @ ?raw"
    by (metis snd_conv)
  then have second:
    "snd (predict_handler sample_env sample_model sample_record (snd ?once)) = ?shown @ ?shown"
    by (simp only: first snd_conv raw)
  show ?thesis
    using proba ex sv plot sv0 force first second
    by (simp add: baseline)
qed

text \<open>
  C7. Every entry of the table has its minimum at most its maximum, and no two entries
  have the same name.
\<close>

theorem registry_invariant:
  "list_all (\<lambda>(feature, config). min_cfg config \<le> max_cfg config) VARIABLE_CONFIG
   \<and> distinct (map fst VARIABLE_CONFIG)"
  by (simp add: VARIABLE_CONFIG_def)

text \<open>
  C8. No exception of class \<^verbatim>\<open>Exception\<close> leaves the handler. Whenever the body of the
  \<^verbatim>\<open>try\<close> raises one, whichever call raised it, the handler returns normally after
  showing "Error: " and the text of the exception; so it is for an exception of the
  classifier and for one of the construction of the explainer. Nothing is tried again:
  a call of the handler calls the classifier once, constructs the explainer at most once
  and shows at most one error.
\<close>

theorem handler_catches_exceptions:
  "fst (predict_handler env model r trace) \<noteq> Inl (Exception msg)
   \<and> (fst (predict_body env model r trace) = Inl (Exception msg) \<longrightarrow>
        predict_handler env model r trace =
          (Inr (), snd (predict_body env model r trace) @ [St_error (''Error: '' @ msg)]))
   \<and> (predict_proba model [r] = Inl (Exception msg) \<longrightarrow>
        predict_handler env model r trace =
          (Inr (), trace @ [Predict_proba [r], St_error (''Error: '' @ msg)]))
   \<and> (proba_of model [r] = Inr p \<and> TreeExplainer env model = Inl (Exception msg) \<longrightarrow>
        predict_handler env model r trace =
          (Inr (), trace @ [Predict_proba [r], Show_risk (color p) (risk_level p),
                            Show_probability p, Construct_explainer,
                            St_error (''Error: '' @ msg)]))
   \<and> length (classifier_calls (snd (predict_handler env model r []))) = 1
   \<and> count_list (snd (predict_handler env model r [])) Construct_explainer \<le> 1
   \<and> length (errors_shown (snd (predict_handler env model r []))) \<le> 1"
proof -
  have "count_list (snd (predict_handler env model r [])) Construct_explainer \<le> 1"
    by (simp add: handler_explainer_count split: sum.splits)
  moreover have "length (errors_shown (snd (predict_handler env model r []))) \<le> 1"
    by (simp add: handler_errors_shown split: sum.splits py_exn.splits)
  moreover have "length (classifier_calls (snd (predict_handler env model r []))) = 1"
    by (simp add: handler_classifier_calls)
  ultimately show ?thesis
    using handler_never_raises_exception [of env model r trace msg]
      handler_converts [of env model r trace msg]
      handler_classifier_raises [of model r msg env trace]
      handler_explainer_raises [of model r p env msg trace]
    by blast
qed

theorem handler_catches_exceptions_witness:
  "predict_proba failing_model [sample_record] = Inl (Exception ''feature names mismatch'')
   \<and> fst (predict_body sample_env failing_model sample_record []) =
       Inl (Exception ''feature names mismatch'')
   \<and> predict_handler sample_env failing_model sample_record [] =
       (Inr (), [Predict_proba [sample_record], St_error ''Error: feature names mismatch''])
   \<and> proba_of sample_model [sample_record] = Inr 0.73
   \<and> TreeExplainer no_explainer_env sample_model = Inl (Exception ''Model type not yet supported'')
   \<and> predict_handler no_explainer_env sample_model sample_record [] =
       (Inr (), [Predict_proba [sample_record], Show_risk ''#FF4B4B'' ''High Risk'',
                 Show_probability 0.73, Construct_explainer,
                 St_error ''Error: Model type not yet supported''])"
proof -
  have raises: "predict_proba failing_model [sample_record] =
                  Inl (Exception ''feature names mismatch'')"
    by (simp add: failing_model_def)
  have body: "fst (predict_body sample_env failing_model sample_record []) =
                Inl (Exception ''feature names mismatch'')"
    by (simp add: handler_defs failing_model_def)
  have proba: "proba_of sample_model [sample_record] = Inr 0.73"
    by (simp add: proba_of_def sample_model_def np_index_def)
  have broken: "TreeExplainer no_explainer_env sample_model =
                  Inl (Exception ''Model type not yet supported'')"
    by (simp add: no_explainer_env_def sample_env_def)
  have classifier_case:
    "predict_handler sample_env failing_model sample_record [] =
       (Inr (), [] @ [Predict_proba [sample_record],
                      St_error (''Error: '' @ ''feature names mismatch'')])"
    using raises
      handler_catches_exceptions
        [of sample_env failing_model sample_record "[]" "''feature names mismatch''" "0.73"]
    by blast
  have explainer_case:
    "predict_handler no_explainer_env sample_model sample_record [] =
       (Inr (), [] @ [Predict_proba [sample_record], Show_risk (color 0.73) (risk_level 0.73),
                      Show_probability 0.73, Construct_explainer,
                      St_error (''Error: '' @ ''Model type not yet supported'')])"
    using proba broken
      handler_catches_exceptions
        [of no_explainer_env sample_model sample_record "[]"
            "''Model type not yet supported''" "0.73"]
    by blast
  show ?thesis
    using raises body proba broken classifier_case explainer_case
    by (simp add: color_def risk_level_def)
qed



text \<open>
  C10. Every widget is created with the minimum of its field as initial value. Before
  any edit the widgets return their initial values, so the record that the form
  assembles then holds the minimum of every field, every field of the table is present
  in it within its bounds, and a click hands this record to the classifier.
\<close>

theorem defaults_are_the_minimums:
  "value_arg (widget_args feature config) = min_cfg config
   \<and> collect_inputs (first_render env) =
       map (\<lambda>(feature, config). (feature, min_cfg config)) VARIABLE_CONFIG
   \<and> valid_record VARIABLE_CONFIG (collect_inputs (first_render env))
   \<and> classifier_calls (snd (script (first_render env) [])) =
       (case joblib_load env (abspath env ''best_model.pkl'') of
          Inl e \<Rightarrow> []
        | Inr model \<Rightarrow>
            if button env ''Predict Risk''
            then [[map (\<lambda>(feature, config). (feature, min_cfg config)) VARIABLE_CONFIG]]
            else [])"
proof -
  have defaults: "collect_inputs (first_render env) =
                    map (\<lambda>(feature, config). (feature, min_cfg config)) VARIABLE_CONFIG"
    by (simp add: collect_inputs_eq first_render_def widget_args_def)
  have "valid_record VARIABLE_CONFIG (collect_inputs (first_render env))"
    unfolding defaults by (simp add: valid_record_def VARIABLE_CONFIG_def)
  moreover have "value_arg (widget_args feature config) = min_cfg config"
    by (simp add: widget_args_def)
  moreover have "classifier_calls (snd (script (first_render env) [])) =
       (case joblib_load env (abspath env ''best_model.pkl'') of
          Inl e \<Rightarrow> []
        | Inr model \<Rightarrow>
            if button env ''Predict Risk''
            then [[map (\<lambda>(feature, config). (feature, min_cfg config)) VARIABLE_CONFIG]]
            else [])"
    unfolding script_classifier_calls defaults by (simp add: first_render_def)
  ultimately show ?thesis
    using defaults by blast
qed

end
